theory Spec2Isabelle
  imports Complex_Main
begin

section \<open>Numbers of the run time\<close>

text \<open>
  The handlers are TypeScript and compute on the \<open>number\<close> type. A \<open>number\<close> is modelled
  as a real number or one of the three special values a division can produce: both
  infinities and NaN. Arithmetic on finite values is exact: the rounding of binary
  floating point and the sign of zero are not part of the model (a zero divisor counts
  as positive zero). The fields of a stored inventory item are finite numbers.

  The run time rounds the result of every operation to a double. Where a finite value
  passes through \<open>Math.ceil\<close> this can move the integer by one against the exact
  value: for usage 55 and unit cost 8.03 the exact eoq is 1000, the run time computes
  a double just above 1000 and stores 1001. The properties below that speak of a value
  after \<open>Math.ceil\<close> are therefore about NaN and the infinities, which no rounding
  touches, or about items where the value before the ceiling is far from an integer.
\<close>

datatype number = Num real | PosInf | NegInf | NaN

fun js_neg :: "number \<Rightarrow> number" where
  "js_neg (Num a) = Num (- a)"
| "js_neg PosInf = NegInf"
| "js_neg NegInf = PosInf"
| "js_neg NaN = NaN"

fun js_add :: "number \<Rightarrow> number \<Rightarrow> number" where
  "js_add NaN y = NaN"
| "js_add x NaN = NaN"
| "js_add (Num a) (Num b) = Num (a + b)"
| "js_add (Num a) y = y"
| "js_add x (Num b) = x"
| "js_add PosInf PosInf = PosInf"
| "js_add NegInf NegInf = NegInf"
| "js_add PosInf NegInf = NaN"
| "js_add NegInf PosInf = NaN"

definition js_sub :: "number \<Rightarrow> number \<Rightarrow> number" where
  "js_sub x y = js_add x (js_neg y)"

text \<open>The infinity with the sign of a finite factor; zero times infinity is NaN.\<close>

definition signed_inf :: "real \<Rightarrow> number" where
  "signed_inf s = (if s = 0 then NaN else if 0 < s then PosInf else NegInf)"

fun js_mul :: "number \<Rightarrow> number \<Rightarrow> number" where
  "js_mul NaN y = NaN"
| "js_mul x NaN = NaN"
| "js_mul (Num a) (Num b) = Num (a * b)"
| "js_mul (Num a) PosInf = signed_inf a"
| "js_mul (Num a) NegInf = signed_inf (- a)"
| "js_mul PosInf (Num b) = signed_inf b"
| "js_mul NegInf (Num b) = signed_inf (- b)"
| "js_mul PosInf PosInf = PosInf"
| "js_mul NegInf NegInf = PosInf"
| "js_mul PosInf NegInf = NegInf"
| "js_mul NegInf PosInf = NegInf"

fun js_div :: "number \<Rightarrow> number \<Rightarrow> number" where
  "js_div NaN y = NaN"
| "js_div x NaN = NaN"
| "js_div (Num a) (Num b) = (if b = 0 then signed_inf a else Num (a / b))"
| "js_div (Num a) y = Num 0"
| "js_div PosInf (Num b) = (if b < 0 then NegInf else PosInf)"
| "js_div NegInf (Num b) = (if b < 0 then PosInf else NegInf)"
| "js_div x y = NaN"

text \<open>\<open>Math.sqrt\<close>, \<open>Math.ceil\<close>, \<open>Math.max\<close> and \<open>Math.min\<close> of two arguments.\<close>

fun js_sqrt :: "number \<Rightarrow> number" where
  "js_sqrt (Num a) = (if a < 0 then NaN else Num (sqrt a))"
| "js_sqrt PosInf = PosInf"
| "js_sqrt NegInf = NaN"
| "js_sqrt NaN = NaN"

fun js_ceil :: "number \<Rightarrow> number" where
  "js_ceil (Num a) = Num (of_int \<lceil>a\<rceil>)"
| "js_ceil x = x"

fun js_max :: "number \<Rightarrow> number \<Rightarrow> number" where
  "js_max NaN y = NaN"
| "js_max x NaN = NaN"
| "js_max PosInf y = PosInf"
| "js_max x PosInf = PosInf"
| "js_max NegInf y = y"
| "js_max x NegInf = x"
| "js_max (Num a) (Num b) = Num (max a b)"

fun js_min :: "number \<Rightarrow> number \<Rightarrow> number" where
  "js_min NaN y = NaN"
| "js_min x NaN = NaN"
| "js_min NegInf y = NegInf"
| "js_min x NegInf = NegInf"
| "js_min PosInf y = y"
| "js_min x PosInf = x"
| "js_min (Num a) (Num b) = Num (min a b)"

text \<open>The comparisons \<open><\<close> and \<open><=\<close>: false as soon as one side is NaN.\<close>

fun js_lt :: "number \<Rightarrow> number \<Rightarrow> bool" where
  "js_lt NaN y = False"
| "js_lt x NaN = False"
| "js_lt (Num a) (Num b) = (a < b)"
| "js_lt x NegInf = False"
| "js_lt NegInf y = True"
| "js_lt PosInf y = False"
| "js_lt x PosInf = True"

fun js_le :: "number \<Rightarrow> number \<Rightarrow> bool" where
  "js_le NaN y = False"
| "js_le x NaN = False"
| "js_le (Num a) (Num b) = (a \<le> b)"
| "js_le NegInf y = True"
| "js_le x PosInf = True"
| "js_le x y = False"

text \<open>\<open>x || y\<close> on numbers: \<open>y\<close> when \<open>x\<close> is zero or NaN, else \<open>x\<close>.\<close>

fun js_or :: "number \<Rightarrow> number \<Rightarrow> number" where
  "js_or (Num a) y = (if a = 0 then y else Num a)"
| "js_or NaN y = y"
| "js_or x y = x"

section \<open>Inventory items and the demand estimator\<close>

text \<open>A row of \<open>inventory_items\<close> as the handlers read it.\<close>

record InventoryItem =
  item_id :: string
  item_name :: string
  item_type :: string
  current_stock :: real
  min_required :: real
  max_capacity :: real
  unit_cost :: real
  avg_usage_per_day :: real
  restock_lead_time :: real
  vendor_name :: "string option"

text \<open>The result of \<open>predictDemand\<close>; \<open>feature_contributions\<close> keeps the keys in order.\<close>

record prediction =
  estimated_demand :: number
  inventory_shortfall :: number
  replenishment_needs :: number
  feature_contributions :: "(string \<times> number) list"

definition predictDemand :: "InventoryItem \<Rightarrow> prediction" where
  "predictDemand item =
    (let estimated_demand = js_mul (Num (avg_usage_per_day item)) (Num (restock_lead_time item));
         inventory_shortfall =
           js_max (Num 0) (js_sub (Num (min_required item)) (Num (current_stock item)));
         replenishment_needs =
           js_max (Num 0) (js_sub estimated_demand (Num (current_stock item)));
         feature_contributions =
           [(''avg_usage_per_day'',
               js_mul (js_div (Num (avg_usage_per_day item)) (js_or estimated_demand (Num 1)))
                 (Num 0.4)),
            (''restock_lead_time'',
               js_mul (js_div (Num (restock_lead_time item)) (js_or estimated_demand (Num 1)))
                 (Num 0.3)),
            (''current_stock'',
               js_mul (js_div (Num (current_stock item)) (js_or (Num (max_capacity item)) (Num 1)))
                 (Num 0.15)),
            (''min_required'',
               js_mul (js_div (Num (min_required item)) (js_or (Num (max_capacity item)) (Num 1)))
                 (Num 0.15))]
     in \<lparr>estimated_demand = estimated_demand,
         inventory_shortfall = inventory_shortfall,
         replenishment_needs = replenishment_needs,
         feature_contributions = feature_contributions\<rparr>)"

section \<open>The cost optimizer\<close>

definition calculateEOQ :: "number \<Rightarrow> number \<Rightarrow> number \<Rightarrow> number" where
  "calculateEOQ annualDemand orderingCost holdingCostPerUnit =
     js_sqrt (js_div (js_mul (js_mul (Num 2) annualDemand) orderingCost) holdingCostPerUnit)"

definition calculateReorderPoint :: "number \<Rightarrow> number \<Rightarrow> number \<Rightarrow> number" where
  "calculateReorderPoint dailyDemand leadTime safetyStock =
     js_add (js_mul dailyDemand leadTime) safetyStock"

text \<open>The third parameter has the default 1.65; \<open>None\<close> is the call that omits it.\<close>

definition calculateSafetyStock :: "number \<Rightarrow> number \<Rightarrow> number option \<Rightarrow> number" where
  "calculateSafetyStock dailyDemand leadTime serviceLevel_opt =
     (let serviceLevel = (case serviceLevel_opt of None \<Rightarrow> Num 1.65 | Some z \<Rightarrow> z);
          demandStdDev = js_mul dailyDemand (Num 0.2);
          leadTimeStdDev = js_sqrt leadTime
      in js_mul (js_mul serviceLevel demandStdDev) leadTimeStdDev)"

text \<open>The local constants of one pass of the loop over the items.\<close>

record cost_locals =
  annualDemand :: number
  orderingCost :: number
  holdingCostRate :: number
  holdingCostPerUnit :: number
  eoq :: number
  safetyStock :: number
  reorderPoint :: number
  optimalOrderQty :: number
  numberOfOrders :: number
  annualOrderingCost :: number
  averageInventory :: number
  annualHoldingCost :: number
  estimatedAnnualCost :: number

definition optimize_item :: "InventoryItem \<Rightarrow> cost_locals" where
  "optimize_item item =
    (let annualDemand = js_mul (Num (avg_usage_per_day item)) (Num 365);
         orderingCost = Num 50;
         holdingCostRate = Num 0.25;
         holdingCostPerUnit = js_mul (Num (unit_cost item)) holdingCostRate;
         eoq = calculateEOQ annualDemand orderingCost holdingCostPerUnit;
         safetyStock =
           calculateSafetyStock (Num (avg_usage_per_day item)) (Num (restock_lead_time item)) None;
         reorderPoint =
           calculateReorderPoint (Num (avg_usage_per_day item)) (Num (restock_lead_time item))
             safetyStock;
         optimalOrderQty = js_min (js_ceil eoq) (Num (max_capacity item));
         numberOfOrders = js_div annualDemand optimalOrderQty;
         annualOrderingCost = js_mul numberOfOrders orderingCost;
         averageInventory = js_add (js_div optimalOrderQty (Num 2)) safetyStock;
         annualHoldingCost = js_mul averageInventory holdingCostPerUnit;
         estimatedAnnualCost =
           js_add (js_add annualOrderingCost annualHoldingCost)
             (js_mul annualDemand (Num (unit_cost item)))
     in \<lparr>annualDemand = annualDemand, orderingCost = orderingCost,
         holdingCostRate = holdingCostRate, holdingCostPerUnit = holdingCostPerUnit,
         eoq = eoq, safetyStock = safetyStock, reorderPoint = reorderPoint,
         optimalOrderQty = optimalOrderQty, numberOfOrders = numberOfOrders,
         annualOrderingCost = annualOrderingCost, averageInventory = averageInventory,
         annualHoldingCost = annualHoldingCost, estimatedAnnualCost = estimatedAnnualCost\<rparr>)"

text \<open>
  The row inserted into \<open>cost_optimization\<close> and the entry pushed on the response.
  Both keep a number as it was computed; that JSON writes NaN and the infinities as
  \<open>null\<close> is not part of the model.
\<close>

record cost_parameters =
  annual_demand :: number
  ordering_cost :: number
  holding_cost_rate :: number
  holding_cost_per_unit :: number
  number_of_orders :: number
  annual_ordering_cost :: number
  annual_holding_cost :: number

record cost_row =
  co_item_id :: string
  co_eoq :: number
  co_reorder_point :: number
  co_safety_stock :: number
  co_optimal_order_quantity :: number
  co_estimated_annual_cost :: number
  co_parameters :: cost_parameters

record optimization =
  o_item_id :: string
  o_item_name :: string
  o_eoq :: number
  o_reorder_point :: number
  o_safety_stock :: number
  o_optimal_order_quantity :: number
  o_estimated_annual_cost :: number
  o_current_stock :: number
  should_reorder :: bool

definition cost_optimization_row :: "InventoryItem \<Rightarrow> cost_row" where
  "cost_optimization_row item =
    (let c = optimize_item item
     in \<lparr>co_item_id = item_id item,
         co_eoq = js_ceil (eoq c),
         co_reorder_point = js_ceil (reorderPoint c),
         co_safety_stock = js_ceil (safetyStock c),
         co_optimal_order_quantity = optimalOrderQty c,
         co_estimated_annual_cost = estimatedAnnualCost c,
         co_parameters =
           \<lparr>annual_demand = annualDemand c, ordering_cost = orderingCost c,
            holding_cost_rate = holdingCostRate c,
            holding_cost_per_unit = holdingCostPerUnit c,
            number_of_orders = numberOfOrders c,
            annual_ordering_cost = annualOrderingCost c,
            annual_holding_cost = annualHoldingCost c\<rparr>\<rparr>)"

definition optimization_entry :: "InventoryItem \<Rightarrow> optimization" where
  "optimization_entry item =
    (let c = optimize_item item
     in \<lparr>o_item_id = item_id item,
         o_item_name = item_name item,
         o_eoq = js_ceil (eoq c),
         o_reorder_point = js_ceil (reorderPoint c),
         o_safety_stock = js_ceil (safetyStock c),
         o_optimal_order_quantity = optimalOrderQty c,
         o_estimated_annual_cost = estimatedAnnualCost c,
         o_current_stock = Num (current_stock item),
         should_reorder = js_le (Num (current_stock item)) (reorderPoint c)\<rparr>)"

section \<open>Requests, responses and the record store\<close>

text \<open>
  A handler reads the request, asks the identity provider and the record store, and
  answers. The model gives it the answers of the outside as an environment (the tables
  it reads, which calls fail, how the run time prints a number) and returns the response
  together with the writes the store accepted, in order. Response headers are left out.
\<close>

datatype thrown = JsError string | StoreError

record model_row =
  model_id :: string
  model_version :: string
  is_active :: bool
  created_at :: nat

record prediction_row =
  pr_item_id :: string
  pr_estimated_demand :: number
  pr_replenishment_needs :: number
  pr_inventory_shortfall :: number
  pr_predicted_by :: string

record history_row =
  h_item_id :: string
  h_model_version_id :: string
  h_predicted_demand :: number
  h_confidence_score :: number
  h_feature_values :: "(string \<times> number) list"
  h_feature_contributions :: "(string \<times> number) list"
  h_created_by :: string

record alert =
  alert_type :: string
  severity :: string
  title :: string
  message :: string
  alert_item_id :: string
  metadata :: "(string \<times> number) list"

text \<open>The fields of the request body of \<open>run-predictions\<close> and of \<open>calculate-cost-optimization\<close>.\<close>

record single_fields =
  sp_item_name :: string
  sp_item_type :: string
  sp_current_stock :: real
  sp_min_required :: real
  sp_max_capacity :: real
  sp_avg_usage_per_day :: real
  sp_restock_lead_time :: real
  sp_unit_cost :: real
  sp_vendor_name :: "string option"

record PredictionInput =
  pi_item_id :: "string option"
  pi_run_all :: "bool option"
  single_prediction :: "single_fields option"

record EOQInput =
  eo_item_id :: "string option"
  eo_run_all :: "bool option"

text \<open>
  A request: its method, its \<open>authorization\<close> header if it has one, and the outcome of
  \<open>req.json()\<close>, which is the parsed body or throws an error with a message.
\<close>

record 'b request =
  req_method :: string
  authorization :: "string option"
  json_body :: "string + 'b"

datatype body =
    NoBody
  | ErrorBody string
  | DemoBody prediction string
  | PredictionsBody "(string \<times> prediction) list" nat string
  | OptimizationsBody "optimization list" nat
  | SeedBody nat nat nat

record response =
  status :: nat
  body :: body

record env =
  getUser :: "string \<Rightarrow> string option"
  model_registry :: "model_row list"
  inventory_items :: "InventoryItem list"
  models_query_fails :: bool
  items_query_fails :: bool
  prediction_insert_fails :: "InventoryItem \<Rightarrow> bool"
  history_insert_fails :: "InventoryItem \<Rightarrow> bool"
  alerts_insert_fails :: bool
  cost_insert_fails :: "InventoryItem \<Rightarrow> bool"
  toFixed1 :: "number \<Rightarrow> string"

text \<open>\<open>s.replace(pat, rep)\<close> with a string pattern: the first occurrence only.\<close>

fun replace_first :: "string \<Rightarrow> string \<Rightarrow> string \<Rightarrow> string" where
  "replace_first pat rep [] = (if pat = [] then rep else [])"
| "replace_first pat rep (c # cs) =
     (if take (length pat) (c # cs) = pat then rep @ drop (length pat) (c # cs)
      else c # replace_first pat rep cs)"

text \<open>
  The credential check both compute handlers start with: the header must be there and
  not empty, and the identity provider must resolve the token to a user.
\<close>

definition authenticate :: "env \<Rightarrow> 'b request \<Rightarrow> thrown + string" where
  "authenticate E req =
    (case authorization req of
       None \<Rightarrow> Inl (JsError ''Missing authorization header'')
     | Some authHeader \<Rightarrow>
         if authHeader = [] then Inl (JsError ''Missing authorization header'')
         else (case getUser E (replace_first ''Bearer '' [] authHeader) of
                 None \<Rightarrow> Inl (JsError ''Unauthorized'')
               | Some user \<Rightarrow> Inr user))"

text \<open>The \<open>catch\<close> block of the compute handlers.\<close>

definition error_response :: "thrown \<Rightarrow> response" where
  "error_response e =
     \<lparr>status = 500,
      body = ErrorBody (case e of JsError m \<Rightarrow> m | StoreError \<Rightarrow> ''Unknown error occurred'')\<rparr>"

text \<open>The active model: \<open>is_active\<close> rows, newest first, at most one.\<close>

definition select_active_models :: "model_row list \<Rightarrow> model_row list" where
  "select_active_models ms = take 1 (sort_key (\<lambda>m. - int (created_at m)) (filter is_active ms))"

text \<open>The items: all of them, or the one with the given id when \<open>!run_all && item_id\<close>.\<close>

definition truthy_flag :: "bool option \<Rightarrow> bool" where
  "truthy_flag b = (case b of None \<Rightarrow> False | Some v \<Rightarrow> v)"

definition select_items :: "InventoryItem list \<Rightarrow> bool option \<Rightarrow> string option \<Rightarrow> InventoryItem list" where
  "select_items tbl run_all wanted =
     (if truthy_flag run_all then tbl
      else case wanted of
             None \<Rightarrow> tbl
           | Some v \<Rightarrow> if v = [] then tbl else filter (\<lambda>i. item_id i = v) tbl)"

text \<open>The rows and payloads of the seeding handler.\<close>

record catalog_item =
  c_item_name :: string
  c_item_type :: string
  c_current_stock :: real
  c_min_required :: real
  c_max_capacity :: real
  c_unit_cost :: real
  c_avg_usage_per_day :: real
  c_restock_lead_time :: real
  c_vendor_name :: string

record registry_entry =
  re_model_version :: string
  re_model_type :: string
  re_mae :: number
  re_rmse :: number
  re_r2_score :: number
  re_training_date :: string
  re_is_active :: bool
  re_feature_importance :: "(string \<times> number) list"
  re_hyperparameters :: "(string \<times> number) list"
  re_dataset_summary :: "(string \<times> number) list"

record seed_history_row =
  sh_item_id :: string
  sh_model_version_id :: string
  sh_predicted_demand :: number
  sh_confidence_score :: number
  sh_feature_values :: "(string \<times> number) list"
  sh_feature_contributions :: "(string \<times> number) list"

record seed_prediction_row =
  sd_item_id :: string
  sd_estimated_demand :: number
  sd_inventory_shortfall :: number
  sd_replenishment_needs :: number

datatype store_write =
    InsertPrediction prediction_row
  | InsertPredictionHistory history_row
  | InsertAlerts "alert list"
  | InsertCostOptimization cost_row
  | UpsertInventoryItems "catalog_item list"
  | UpsertModelRegistry registry_entry
  | InsertPredictionHistoryRows "seed_history_row list"
  | UpsertPredictions "seed_prediction_row list"

section \<open>The handler of run-predictions\<close>

definition demo_item :: "single_fields \<Rightarrow> InventoryItem" where
  "demo_item sp =
     \<lparr>item_id = ''demo'', item_name = sp_item_name sp, item_type = sp_item_type sp,
      current_stock = sp_current_stock sp, min_required = sp_min_required sp,
      max_capacity = sp_max_capacity sp, unit_cost = sp_unit_cost sp,
      avg_usage_per_day = sp_avg_usage_per_day sp,
      restock_lead_time = sp_restock_lead_time sp, vendor_name = sp_vendor_name sp\<rparr>"

text \<open>The alert of one item, from the stock percentage (the block after the history insert).\<close>

definition stockPercentage :: "InventoryItem \<Rightarrow> number" where
  "stockPercentage item =
     js_mul (js_div (Num (current_stock item)) (Num (min_required item))) (Num 100)"

definition alert_metadata :: "InventoryItem \<Rightarrow> prediction \<Rightarrow> (string \<times> number) list" where
  "alert_metadata item p =
     [(''current_stock'', Num (current_stock item)),
      (''min_required'', Num (min_required item)),
      (''predicted_demand'', estimated_demand p)]"

definition generate_alerts :: "env \<Rightarrow> InventoryItem \<Rightarrow> prediction \<Rightarrow> alert list" where
  "generate_alerts E item p =
     (if js_lt (stockPercentage item) (Num 10) then
        [\<lparr>alert_type = ''critical_stock'', severity = ''critical'',
          title = ''Critical Stock Alert: '' @ item_name item,
          message = ''Item is at '' @ toFixed1 E (stockPercentage item) @
            ''% of minimum required. Immediate action needed.'',
          alert_item_id = item_id item, metadata = alert_metadata item p\<rparr>]
      else if js_lt (stockPercentage item) (Num 20) then
        [\<lparr>alert_type = ''low_stock'', severity = ''warning'',
          title = ''Low Stock Warning: '' @ item_name item,
          message = ''Item is at '' @ toFixed1 E (stockPercentage item) @
            ''% of minimum required. Consider restocking soon.'',
          alert_item_id = item_id item, metadata = alert_metadata item p\<rparr>]
      else [])"

text \<open>The arrays the loop fills and the writes it has made.\<close>

record loop_state =
  predictions :: "(string \<times> prediction) list"
  alerts :: "alert list"
  writes :: "store_write list"

definition process_item :: "env \<Rightarrow> string \<Rightarrow> model_row \<Rightarrow> InventoryItem \<Rightarrow> loop_state \<Rightarrow> loop_state" where
  "process_item E user activeModel item st =
    (let p = predictDemand item
     in if prediction_insert_fails E item then st
        else
          \<lparr>predictions = predictions st @ [(item_id item, p)],
           alerts = alerts st @ generate_alerts E item p,
           writes = writes st @
             [InsertPrediction
                \<lparr>pr_item_id = item_id item, pr_estimated_demand = estimated_demand p,
                 pr_replenishment_needs = replenishment_needs p,
                 pr_inventory_shortfall = inventory_shortfall p,
                 pr_predicted_by = user\<rparr>] @
             (if history_insert_fails E item then []
              else [InsertPredictionHistory
                \<lparr>h_item_id = item_id item, h_model_version_id = model_id activeModel,
                 h_predicted_demand = estimated_demand p, h_confidence_score = Num 0.85,
                 h_feature_values =
                   [(''current_stock'', Num (current_stock item)),
                    (''min_required'', Num (min_required item)),
                    (''avg_usage_per_day'', Num (avg_usage_per_day item)),
                    (''restock_lead_time'', Num (restock_lead_time item))],
                 h_feature_contributions = feature_contributions p,
                 h_created_by = user\<rparr>])\<rparr>)"

fun predict_loop :: "env \<Rightarrow> string \<Rightarrow> model_row \<Rightarrow> InventoryItem list \<Rightarrow> loop_state \<Rightarrow> loop_state" where
  "predict_loop E user activeModel [] st = st"
| "predict_loop E user activeModel (item # items) st =
     predict_loop E user activeModel items (process_item E user activeModel item st)"

definition run_predictions :: "env \<Rightarrow> PredictionInput request \<Rightarrow> response \<times> store_write list" where
  "run_predictions E req =
    (if req_method req = ''OPTIONS'' then (\<lparr>status = 200, body = NoBody\<rparr>, [])
     else case authenticate E req of
       Inl e \<Rightarrow> (error_response e, [])
     | Inr user \<Rightarrow>
        (case json_body req of
           Inl msg \<Rightarrow> (error_response (JsError msg), [])
         | Inr input \<Rightarrow>
            (case (if models_query_fails E then [] else select_active_models (model_registry E)) of
               [] \<Rightarrow> (error_response (JsError ''No active model found''), [])
             | activeModel # _ \<Rightarrow>
                (case single_prediction input of
                   Some sp \<Rightarrow>
                     (\<lparr>status = 200,
                       body = DemoBody (predictDemand (demo_item sp)) (model_version activeModel)\<rparr>,
                      [])
                 | None \<Rightarrow>
                    (case (if items_query_fails E then []
                           else select_items (inventory_items E) (pi_run_all input) (pi_item_id input)) of
                       [] \<Rightarrow> (error_response (JsError ''No items found''), [])
                     | item # items \<Rightarrow>
                        (let st = predict_loop E user activeModel (item # items)
                                    \<lparr>predictions = [], alerts = [], writes = []\<rparr>
                         in (\<lparr>status = 200,
                               body = PredictionsBody (predictions st) (length (alerts st))
                                        (model_version activeModel)\<rparr>,
                             writes st @
                               (if alerts st = [] then []
                                else if alerts_insert_fails E then []
                                else [InsertAlerts (alerts st)]))))))))"

section \<open>The handler of calculate-cost-optimization\<close>

record cost_state =
  optimizations :: "optimization list"
  cost_writes :: "store_write list"

definition optimize_step :: "env \<Rightarrow> InventoryItem \<Rightarrow> cost_state \<Rightarrow> cost_state" where
  "optimize_step E item st =
     (if cost_insert_fails E item then st
      else \<lparr>optimizations = optimizations st @ [optimization_entry item],
            cost_writes = cost_writes st @ [InsertCostOptimization (cost_optimization_row item)]\<rparr>)"

fun optimize_loop :: "env \<Rightarrow> InventoryItem list \<Rightarrow> cost_state \<Rightarrow> cost_state" where
  "optimize_loop E [] st = st"
| "optimize_loop E (item # items) st = optimize_loop E items (optimize_step E item st)"

definition calculate_cost_optimization :: "env \<Rightarrow> EOQInput request \<Rightarrow> response \<times> store_write list" where
  "calculate_cost_optimization E req =
    (if req_method req = ''OPTIONS'' then (\<lparr>status = 200, body = NoBody\<rparr>, [])
     else case authenticate E req of
       Inl e \<Rightarrow> (error_response e, [])
     | Inr user \<Rightarrow>
        (case json_body req of
           Inl msg \<Rightarrow> (error_response (JsError msg), [])
         | Inr input \<Rightarrow>
            (case (if items_query_fails E then []
                   else select_items (inventory_items E) (eo_run_all input) (eo_item_id input)) of
               [] \<Rightarrow> (error_response (JsError ''No items found''), [])
             | item # items \<Rightarrow>
                (let st = optimize_loop E (item # items) \<lparr>optimizations = [], cost_writes = []\<rparr>
                 in (\<lparr>status = 200,
                       body = OptimizationsBody (optimizations st) (length (optimizations st))\<rparr>,
                     cost_writes st)))))"

section \<open>The handler of seed-sample-data\<close>

text \<open>
  What the seeding handler gets from outside: the id the store gives the row of an item
  name and the row of the model, the draws of \<open>Math.random()\<close>, the date, how a number
  prints, and for each of its five store calls the error it returns, if any.
\<close>

record seed_env =
  stored_id :: "string \<Rightarrow> string"
  stored_model_id :: string
  random :: "nat \<Rightarrow> real"
  now_iso :: string
  show_number :: "real \<Rightarrow> string"
  upsert_items_error :: "thrown option"
  upsert_model_error :: "thrown option"
  insert_history_error :: "thrown option"
  upsert_predictions_error :: "thrown option"
  insert_alerts_error :: "thrown option"

definition catalog :: "string \<Rightarrow> string \<Rightarrow> real \<Rightarrow> real \<Rightarrow> real \<Rightarrow> real \<Rightarrow> real \<Rightarrow> real \<Rightarrow> string \<Rightarrow> catalog_item" where
  "catalog n t cs mr cap uc a l v =
     \<lparr>c_item_name = n, c_item_type = t, c_current_stock = cs, c_min_required = mr,
      c_max_capacity = cap, c_unit_cost = uc, c_avg_usage_per_day = a,
      c_restock_lead_time = l, c_vendor_name = v\<rparr>"

definition inventoryItems :: "catalog_item list" where
  "inventoryItems =
    [catalog ''Ventilator'' ''Equipment'' 2487 656 3556 5832.29 55 12 ''MedSupply Inc'',
     catalog ''Surgical Mask'' ''PPE'' 2371 384 5562 16062.98 470 6 ''HealthCare Supplies'',
     catalog ''IV Drip'' ''Medical Supplies'' 2410 338 1013 15426.53 158 12 ''PharmaTech'',
     catalog ''Surgical Gloves'' ''PPE'' 1542 264 1018 4467.55 108 17 ''MedSupply Inc'',
     catalog ''Syringes'' ''Medical Supplies'' 2038 438 1131 744.10 207 15 ''HealthCare Supplies'',
     catalog ''Bandages'' ''Medical Supplies'' 1850 500 2500 125.50 95 10 ''PharmaTech'',
     catalog ''X-Ray Film'' ''Equipment'' 320 150 800 2350.00 12 14 ''MedSupply Inc'',
     catalog ''Oxygen Tanks'' ''Equipment'' 180 200 500 8500.00 8 20 ''PharmaTech'']"

text \<open>The row the store returns for an upserted catalog item.\<close>

definition stored_row :: "seed_env \<Rightarrow> catalog_item \<Rightarrow> InventoryItem" where
  "stored_row E c =
     \<lparr>item_id = stored_id E (c_item_name c), item_name = c_item_name c,
      item_type = c_item_type c, current_stock = c_current_stock c,
      min_required = c_min_required c, max_capacity = c_max_capacity c,
      unit_cost = c_unit_cost c, avg_usage_per_day = c_avg_usage_per_day c,
      restock_lead_time = c_restock_lead_time c, vendor_name = Some (c_vendor_name c)\<rparr>"

definition seed_registry_entry :: "seed_env \<Rightarrow> registry_entry" where
  "seed_registry_entry E =
     \<lparr>re_model_version = ''v1.0.0'', re_model_type = ''GradientBoosting'',
      re_mae = Num 157.17, re_rmse = Num 215.72, re_r2_score = Num 0.92,
      re_training_date = now_iso E, re_is_active = True,
      re_feature_importance =
        [(''Avg_Usage_Per_Day'', Num 0.45), (''Restock_Lead_Time'', Num 0.30),
         (''Current_Stock'', Num 0.15), (''Unit_Cost'', Num 0.10)],
      re_hyperparameters =
        [(''n_estimators'', Num 100), (''learning_rate'', Num 0.1),
         (''max_depth'', Num 3), (''random_state'', Num 42)],
      re_dataset_summary =
        [(''total_samples'', Num 500), (''train_samples'', Num 350),
         (''val_samples'', Num 75), (''test_samples'', Num 75)]\<rparr>"

text \<open>The first \<open>map\<close>: a history row per item; \<open>r\<close> is the draw of \<open>Math.random()\<close>.\<close>

definition seed_history :: "string \<Rightarrow> real \<Rightarrow> InventoryItem \<Rightarrow> seed_history_row" where
  "seed_history modelData_id r item =
    (let estimatedDemand = js_mul (Num (avg_usage_per_day item)) (Num (restock_lead_time item));
         inventoryShortfall =
           js_max (Num 0) (js_sub (Num (min_required item)) (Num (current_stock item)));
         replenishmentNeeds =
           js_max (Num 0) (js_sub (Num (max_capacity item)) (Num (current_stock item)))
     in \<lparr>sh_item_id = item_id item,
         sh_model_version_id = modelData_id,
         sh_predicted_demand = estimatedDemand,
         sh_confidence_score = js_add (Num 0.85) (js_mul (Num r) (Num 0.1)),
         sh_feature_values =
           [(''avg_usage_per_day'', Num (avg_usage_per_day item)),
            (''restock_lead_time'', Num (restock_lead_time item)),
            (''current_stock'', Num (current_stock item)),
            (''shortfall'', inventoryShortfall),
            (''replenishment_needs'', replenishmentNeeds),
            (''unit_cost'', Num (unit_cost item))],
         sh_feature_contributions =
           [(''Avg_Usage_Per_Day'', Num 45.0), (''Restock_Lead_Time'', Num 30.0),
            (''Current_Stock'', Num 15.0)]\<rparr>)"

fun seed_histories :: "seed_env \<Rightarrow> nat \<Rightarrow> InventoryItem list \<Rightarrow> seed_history_row list" where
  "seed_histories E k [] = []"
| "seed_histories E k (item # items) =
     seed_history (stored_model_id E) (random E k) item # seed_histories E (Suc k) items"

text \<open>The second \<open>map\<close>: the row of \<open>predictions\<close> the dashboard reads.\<close>

definition seed_dashboard :: "InventoryItem \<Rightarrow> seed_prediction_row" where
  "seed_dashboard item =
    (let estimatedDemand = js_mul (Num (avg_usage_per_day item)) (Num (restock_lead_time item));
         inventoryShortfall =
           js_max (Num 0) (js_sub (Num (min_required item)) (Num (current_stock item)));
         replenishmentNeeds =
           js_max (Num 0) (js_sub (Num (max_capacity item)) (Num (current_stock item)))
     in \<lparr>sd_item_id = item_id item,
         sd_estimated_demand = estimatedDemand,
         sd_inventory_shortfall = inventoryShortfall,
         sd_replenishment_needs = replenishmentNeeds\<rparr>)"

definition seed_alert :: "seed_env \<Rightarrow> InventoryItem \<Rightarrow> alert" where
  "seed_alert E item =
     \<lparr>alert_type = ''low_stock'',
      severity = (if current_stock item < min_required item * 0.5 then ''critical'' else ''warning''),
      title = ''Low Stock Alert: '' @ item_name item,
      message = item_name item @ '' stock ('' @ show_number E (current_stock item) @
        '') is below minimum required ('' @ show_number E (min_required item) @ '')'',
      alert_item_id = item_id item,
      metadata =
        [(''current_stock'', Num (current_stock item)),
         (''min_required'', Num (min_required item)),
         (''shortfall'', js_sub (Num (min_required item)) (Num (current_stock item)))]\<rparr>"

definition seed_error_response :: "thrown \<Rightarrow> response" where
  "seed_error_response e =
     \<lparr>status = 500,
      body = ErrorBody (case e of JsError m \<Rightarrow> m | StoreError \<Rightarrow> ''Unknown error'')\<rparr>"

definition seed_success :: "InventoryItem list \<Rightarrow> InventoryItem list \<Rightarrow> response" where
  "seed_success insertedItems lowStockItems =
     \<lparr>status = 200,
      body = SeedBody (length insertedItems) (length insertedItems) (length lowStockItems)\<rparr>"

definition seed_sample_data :: "seed_env \<Rightarrow> 'b request \<Rightarrow> response \<times> store_write list" where
  "seed_sample_data E req =
    (if req_method req = ''OPTIONS'' then (\<lparr>status = 200, body = NoBody\<rparr>, [])
     else case upsert_items_error E of
       Some e \<Rightarrow> (seed_error_response e, [])
     | None \<Rightarrow>
        (let insertedItems = map (stored_row E) inventoryItems;
             w1 = [UpsertInventoryItems inventoryItems]
         in case upsert_model_error E of
              Some e \<Rightarrow> (seed_error_response e, w1)
            | None \<Rightarrow>
               (let w2 = w1 @ [UpsertModelRegistry (seed_registry_entry E)]
                in case insert_history_error E of
                     Some e \<Rightarrow> (seed_error_response e, w2)
                   | None \<Rightarrow>
                      (let w3 = w2 @ [InsertPredictionHistoryRows (seed_histories E 0 insertedItems)]
                       in case upsert_predictions_error E of
                            Some e \<Rightarrow> (seed_error_response e, w3)
                          | None \<Rightarrow>
                             (let w4 = w3 @ [UpsertPredictions (map seed_dashboard insertedItems)];
                                  lowStockItems =
                                    filter (\<lambda>item. current_stock item < min_required item)
                                      insertedItems
                              in if lowStockItems = [] then
                                   (seed_success insertedItems lowStockItems, w4)
                                 else case insert_alerts_error E of
                                   Some e \<Rightarrow> (seed_error_response e, w4)
                                 | None \<Rightarrow>
                                    (seed_success insertedItems lowStockItems,
                                     w4 @ [InsertAlerts (map (seed_alert E) lowStockItems)]))))))"

section \<open>Sample inputs\<close>

text \<open>Concrete items, an environment where every call succeeds, and requests.\<close>

definition sample_item :: "real \<Rightarrow> real \<Rightarrow> InventoryItem" where
  "sample_item cs mr =
     \<lparr>item_id = ''item-1'', item_name = ''Sample'', item_type = ''Equipment'',
      current_stock = cs, min_required = mr, max_capacity = 100, unit_cost = 1460,
      avg_usage_per_day = 1, restock_lead_time = 1, vendor_name = None\<rparr>"

definition sample_model :: model_row where
  "sample_model =
     \<lparr>model_id = ''model-1'', model_version = ''v1.0.0'', is_active = True, created_at = 1\<rparr>"

definition sample_env :: env where
  "sample_env =
     \<lparr>getUser = (\<lambda>token. if token = ''secret'' then Some ''user-1'' else None),
      model_registry = [sample_model],
      inventory_items = [sample_item 10 200],
      models_query_fails = False, items_query_fails = False,
      prediction_insert_fails = (\<lambda>item. False),
      history_insert_fails = (\<lambda>item. False),
      alerts_insert_fails = False,
      cost_insert_fails = (\<lambda>item. False),
      toFixed1 = (\<lambda>x. ''5.0'')\<rparr>"

definition empty_state :: loop_state where
  "empty_state = \<lparr>predictions = [], alerts = [], writes = []\<rparr>"

definition sample_fields :: single_fields where
  "sample_fields =
     \<lparr>sp_item_name = ''Ventilator'', sp_item_type = ''Equipment'', sp_current_stock = 2487,
      sp_min_required = 656, sp_max_capacity = 3556, sp_avg_usage_per_day = 55,
      sp_restock_lead_time = 12, sp_unit_cost = 5832.29, sp_vendor_name = None\<rparr>"

definition demo_request :: "PredictionInput request" where
  "demo_request =
     \<lparr>req_method = ''POST'', authorization = Some ''Bearer secret'',
      json_body = Inr \<lparr>pi_item_id = None, pi_run_all = None,
                       single_prediction = Some sample_fields\<rparr>\<rparr>"

text \<open>A request with no \<open>authorization\<close> header and no body.\<close>

definition anonymous_request :: "unit request" where
  "anonymous_request =
     \<lparr>req_method = ''POST'', authorization = None,
      json_body = Inl ''Unexpected end of JSON input''\<rparr>"

section \<open>Properties of the demand estimator\<close>

lemma js_sub_Num: "js_sub (Num a) (Num b) = Num (a - b)"
  by (simp add: js_sub_def)

lemma js_or_one: "js_or (Num d) (Num 1) = Num (if d = 0 then 1 else d)"
  by simp

lemma js_div_guarded:
  "js_div (Num a) (Num (if d = 0 then 1 else d)) = Num (a / (if d = 0 then 1 else d))"
  by simp

text \<open>
  C1. For every inventory item, \<open>predictDemand\<close> returns the product of daily usage and
  lead time as estimated demand, the shortfall \<open>max(0, min_required - current_stock)\<close>,
  the replenishment need \<open>max(0, estimated_demand - current_stock)\<close>, and the four
  contributions: the coefficients 0.4, 0.3, 0.15, 0.15 times usage over demand, lead
  time over demand, stock over capacity and minimum over capacity, with 1 in place of a
  zero denominator. The item with usage 55, lead time 12, stock 2487 and minimum 656
  gets demand 660, shortfall 0 and replenishment need 0.
\<close>

theorem predictDemand_formulas:
  "estimated_demand (predictDemand item) =
      Num (avg_usage_per_day item * restock_lead_time item)
   \<and> inventory_shortfall (predictDemand item) =
      Num (max 0 (min_required item - current_stock item))
   \<and> replenishment_needs (predictDemand item) =
      Num (max 0 (avg_usage_per_day item * restock_lead_time item - current_stock item))
   \<and> feature_contributions (predictDemand item) =
      [(''avg_usage_per_day'',
          Num (avg_usage_per_day item /
                (if avg_usage_per_day item * restock_lead_time item = 0 then 1
                 else avg_usage_per_day item * restock_lead_time item) * 0.4)),
       (''restock_lead_time'',
          Num (restock_lead_time item /
                (if avg_usage_per_day item * restock_lead_time item = 0 then 1
                 else avg_usage_per_day item * restock_lead_time item) * 0.3)),
       (''current_stock'',
          Num (current_stock item /
                (if max_capacity item = 0 then 1 else max_capacity item) * 0.15)),
       (''min_required'',
          Num (min_required item /
                (if max_capacity item = 0 then 1 else max_capacity item) * 0.15))]
   \<and> estimated_demand (predictDemand (item\<lparr>avg_usage_per_day := 55, restock_lead_time := 12,
          current_stock := 2487, min_required := 656\<rparr>)) = Num 660
   \<and> inventory_shortfall (predictDemand (item\<lparr>avg_usage_per_day := 55, restock_lead_time := 12,
          current_stock := 2487, min_required := 656\<rparr>)) = Num 0
   \<and> replenishment_needs (predictDemand (item\<lparr>avg_usage_per_day := 55, restock_lead_time := 12,
          current_stock := 2487, min_required := 656\<rparr>)) = Num 0"
  by (simp add: predictDemand_def Let_def js_sub_Num)

section \<open>Properties of the cost optimizer\<close>

lemmas cost_defs = optimize_item_def cost_optimization_row_def optimization_entry_def
  calculateEOQ_def calculateSafetyStock_def calculateReorderPoint_def Let_def

text \<open>Which fields of the row and of the entry pass through \<open>Math.ceil\<close>.\<close>

lemma ceiling_rounded_fields:
  "co_eoq (cost_optimization_row item) = js_ceil (eoq (optimize_item item))
   \<and> co_reorder_point (cost_optimization_row item) = js_ceil (reorderPoint (optimize_item item))
   \<and> co_safety_stock (cost_optimization_row item) = js_ceil (safetyStock (optimize_item item))
   \<and> co_optimal_order_quantity (cost_optimization_row item) = optimalOrderQty (optimize_item item)
   \<and> co_estimated_annual_cost (cost_optimization_row item) =
       estimatedAnnualCost (optimize_item item)
   \<and> o_eoq (optimization_entry item) = co_eoq (cost_optimization_row item)
   \<and> o_reorder_point (optimization_entry item) = co_reorder_point (cost_optimization_row item)
   \<and> o_safety_stock (optimization_entry item) = co_safety_stock (cost_optimization_row item)
   \<and> o_optimal_order_quantity (optimization_entry item) =
       co_optimal_order_quantity (cost_optimization_row item)
   \<and> o_estimated_annual_cost (optimization_entry item) =
       co_estimated_annual_cost (cost_optimization_row item)"
  by (simp add: cost_optimization_row_def optimization_entry_def Let_def)

text \<open>
  C2. The claim: for every inventory item the cost optimizer computes safety stock,
  reorder point, eoq, optimal order quantity and estimated annual cost by the formulas
  of the spec, and in the inserted row and the response entry eoq, reorder point and
  safety stock are rounded up to integers. At unit cost 0 the holding cost per unit is
  0 and the quotient under the root has a zero divisor: with usage 1 the eoq is
  infinity and \<open>Math.ceil\<close> leaves it so, in the row and in the entry, which is no
  integer; with usage 0 the eoq, the optimal order quantity and the estimated annual
  cost of the row are NaN.
\<close>

theorem stored_eoq_not_integer:
  "co_eoq (cost_optimization_row (item\<lparr>unit_cost := 0, avg_usage_per_day := 1\<rparr>)) = PosInf
   \<and> o_eoq (optimization_entry (item\<lparr>unit_cost := 0, avg_usage_per_day := 1\<rparr>)) = PosInf
   \<and> (\<forall>n::int. co_eoq (cost_optimization_row (item\<lparr>unit_cost := 0, avg_usage_per_day := 1\<rparr>))
          \<noteq> Num (of_int n))
   \<and> co_eoq (cost_optimization_row (item\<lparr>unit_cost := 0, avg_usage_per_day := 0\<rparr>)) = NaN
   \<and> co_optimal_order_quantity
        (cost_optimization_row (item\<lparr>unit_cost := 0, avg_usage_per_day := 0\<rparr>)) = NaN
   \<and> co_estimated_annual_cost
        (cost_optimization_row (item\<lparr>unit_cost := 0, avg_usage_per_day := 0\<rparr>)) = NaN"
  unfolding cost_defs by (simp add: signed_inf_def)

text \<open>
  Reorder point and safety stock have no division: with a lead time that is not
  negative the row holds an integer for each.
\<close>

lemma stored_reorder_point_integer:
  assumes "0 \<le> restock_lead_time item"
  shows "(\<exists>n::int. co_reorder_point (cost_optimization_row item) = Num (of_int n))
     \<and> (\<exists>n::int. co_safety_stock (cost_optimization_row item) = Num (of_int n))"
  using assms unfolding cost_defs by (simp add: not_less)

text \<open>The loop hands exactly this row to the store and this entry to the response.\<close>

lemma optimize_step_stores:
  "\<not> cost_insert_fails E item \<Longrightarrow>
   cost_writes (optimize_step E item st) =
     cost_writes st @ [InsertCostOptimization (cost_optimization_row item)]
   \<and> optimizations (optimize_step E item st) = optimizations st @ [optimization_entry item]"
  by (simp add: optimize_step_def)

text \<open>The values before any ceiling, on the reals, where every division is defined.\<close>

lemma eoq_value:
  "eoq (optimize_item item) =
     js_sqrt (js_div (Num (2 * (avg_usage_per_day item * 365) * 50)) (Num (unit_cost item * 0.25)))"
  by (simp add: optimize_item_def calculateEOQ_def Let_def)

lemma eoq_positive_cost:
  "0 < unit_cost item \<Longrightarrow> 0 \<le> avg_usage_per_day item \<Longrightarrow>
   eoq (optimize_item item) =
     Num (sqrt (2 * (avg_usage_per_day item * 365) * 50 / (unit_cost item * 0.25)))"
  by (simp add: eoq_value not_less)

lemma eoq_zero_cost:
  "unit_cost item = 0 \<Longrightarrow> 0 < avg_usage_per_day item \<Longrightarrow> eoq (optimize_item item) = PosInf"
  by (simp add: eoq_value signed_inf_def)

lemma safety_stock_value:
  "0 \<le> restock_lead_time item \<Longrightarrow>
   safetyStock (optimize_item item) =
     Num (1.65 * (avg_usage_per_day item * 0.2) * sqrt (restock_lead_time item))"
  unfolding cost_defs by (simp add: not_less)

lemma reorder_point_value:
  "0 \<le> restock_lead_time item \<Longrightarrow>
   reorderPoint (optimize_item item) =
     Num (avg_usage_per_day item * restock_lead_time item +
          1.65 * (avg_usage_per_day item * 0.2) * sqrt (restock_lead_time item))"
  unfolding cost_defs by (simp add: not_less)

lemma optimal_value:
  "optimalOrderQty (optimize_item item) =
     js_min (js_ceil (eoq (optimize_item item))) (Num (max_capacity item))"
  by (simp add: optimize_item_def Let_def)

text \<open>
  C5. The claim: for every inventory item, also with unit cost 0 or daily usage 0, the
  optimal order quantity is at most the maximum capacity. With both fields 0 the
  quotient under the root is 0/0: the optimal order quantity is NaN, and NaN is not at
  most anything.
\<close>

theorem optimal_order_quantity_nan:
  "optimalOrderQty (optimize_item (item\<lparr>unit_cost := 0, avg_usage_per_day := 0\<rparr>)) = NaN
   \<and> co_optimal_order_quantity
        (cost_optimization_row (item\<lparr>unit_cost := 0, avg_usage_per_day := 0\<rparr>)) = NaN
   \<and> \<not> js_le (co_optimal_order_quantity
          (cost_optimization_row (item\<lparr>unit_cost := 0, avg_usage_per_day := 0\<rparr>)))
        (Num (max_capacity (item\<lparr>unit_cost := 0, avg_usage_per_day := 0\<rparr>)))"
  unfolding cost_defs by (simp add: signed_inf_def)

text \<open>Everywhere else on non-negative fields the bound holds.\<close>

lemma optimal_le_capacity:
  assumes "0 \<le> avg_usage_per_day item" "0 \<le> unit_cost item"
    and "0 < avg_usage_per_day item \<or> 0 < unit_cost item"
  shows "js_le (optimalOrderQty (optimize_item item)) (Num (max_capacity item))"
proof (cases "unit_cost item = 0")
  case True
  with assms have "eoq (optimize_item item) = PosInf" by (simp add: eoq_zero_cost)
  then show ?thesis by (simp add: optimal_value)
next
  case False
  with assms have "eoq (optimize_item item) =
     Num (sqrt (2 * (avg_usage_per_day item * 365) * 50 / (unit_cost item * 0.25)))"
    by (simp add: eoq_positive_cost)
  then show ?thesis by (simp add: optimal_value)
qed

text \<open>
  C6. The claim: of two items that differ in daily usage only, the one with the larger
  usage has an eoq greater than or equal to the other's. At unit cost 0, usage 0 gives
  NaN and usage 1 gives infinity, and NaN is not at most infinity; the rounded eoq of
  the row behaves the same.
\<close>

theorem eoq_not_monotone_at_zero_cost:
  "eoq (optimize_item (item\<lparr>unit_cost := 0, avg_usage_per_day := 0\<rparr>)) = NaN
   \<and> eoq (optimize_item (item\<lparr>unit_cost := 0, avg_usage_per_day := 1\<rparr>)) = PosInf
   \<and> \<not> js_le (eoq (optimize_item (item\<lparr>unit_cost := 0, avg_usage_per_day := 0\<rparr>)))
              (eoq (optimize_item (item\<lparr>unit_cost := 0, avg_usage_per_day := 1\<rparr>)))
   \<and> \<not> js_le (co_eoq (cost_optimization_row (item\<lparr>unit_cost := 0, avg_usage_per_day := 0\<rparr>)))
              (co_eoq (cost_optimization_row (item\<lparr>unit_cost := 0, avg_usage_per_day := 1\<rparr>)))"
  unfolding cost_defs by (simp add: signed_inf_def)

text \<open>With a positive unit cost the eoq grows with the usage.\<close>

lemma eoq_monotone:
  assumes "0 < unit_cost item" "0 \<le> a1" "a1 \<le> a2"
  shows "js_le (eoq (optimize_item (item\<lparr>avg_usage_per_day := a1\<rparr>)))
               (eoq (optimize_item (item\<lparr>avg_usage_per_day := a2\<rparr>)))"
proof -
  have "2 * (a1 * 365) * 50 / (unit_cost item * 0.25)
          \<le> 2 * (a2 * 365) * 50 / (unit_cost item * 0.25)"
    using assms by (simp add: divide_right_mono)
  then show ?thesis using assms by (simp add: eoq_positive_cost)
qed

lemma sample_reorder_point: "reorderPoint (optimize_item (sample_item 2 1)) = Num 1.33"
  by (simp add: reorder_point_value sample_item_def)

text \<open>
  C10. The flag \<open>should_reorder\<close> of a response entry compares the current stock with
  the reorder point as computed, the \<open>reorder_point\<close> field of the entry and of the row
  is that value rounded up; so there are items whose flag is false although their stock
  is at most the reorder point the entry shows.
\<close>

theorem should_reorder_unrounded:
  "should_reorder (optimization_entry item) =
     js_le (Num (current_stock item)) (reorderPoint (optimize_item item))
   \<and> o_reorder_point (optimization_entry item) = js_ceil (reorderPoint (optimize_item item))
   \<and> co_reorder_point (cost_optimization_row item) = js_ceil (reorderPoint (optimize_item item))
   \<and> (\<exists>it. \<not> should_reorder (optimization_entry it)
          \<and> js_le (o_current_stock (optimization_entry it))
               (o_reorder_point (optimization_entry it)))"
proof -
  have c: "\<lceil>1.33::real\<rceil> = 2" by (simp add: ceiling_eq_iff)
  have "\<not> should_reorder (optimization_entry (sample_item 2 1))
     \<and> js_le (o_current_stock (optimization_entry (sample_item 2 1)))
          (o_reorder_point (optimization_entry (sample_item 2 1)))"
    using sample_reorder_point
    by (simp add: optimization_entry_def Let_def c) (simp add: sample_item_def)
  then have "\<exists>it. \<not> should_reorder (optimization_entry it)
          \<and> js_le (o_current_stock (optimization_entry it))
               (o_reorder_point (optimization_entry it))"
    by blast
  then show ?thesis by (simp add: optimization_entry_def cost_optimization_row_def Let_def)
qed

section \<open>The seeding formulas against the estimator\<close>

text \<open>Demand and shortfall of the seeded rows are the estimator's.\<close>

lemma seed_demand_and_shortfall:
  "sd_estimated_demand (seed_dashboard item) = estimated_demand (predictDemand item)
   \<and> sd_inventory_shortfall (seed_dashboard item) = inventory_shortfall (predictDemand item)
   \<and> sh_predicted_demand (seed_history mid r item) = estimated_demand (predictDemand item)
   \<and> map_of (sh_feature_values (seed_history mid r item)) ''shortfall'' =
       Some (inventory_shortfall (predictDemand item))"
  by (simp add: seed_dashboard_def seed_history_def predictDemand_def Let_def)

text \<open>The replenishment need of the seeded rows is measured against the capacity.\<close>

lemma seed_replenishment_value:
  "sd_replenishment_needs (seed_dashboard item) =
     Num (max 0 (max_capacity item - current_stock item))
   \<and> map_of (sh_feature_values (seed_history mid r item)) ''replenishment_needs'' =
       Some (Num (max 0 (max_capacity item - current_stock item)))"
  by (simp add: seed_dashboard_def seed_history_def Let_def js_sub_def)

text \<open>
  C7. The claim: the demand fields of the rows the seeding handler writes equal what
  \<open>predictDemand\<close> returns for the item. For the first item of the handler's own
  catalog (Ventilator) the seeded replenishment need is 3556 - 2487 = 1069, in the
  dashboard row and in the history row, and \<open>predictDemand\<close> returns 0.
\<close>

theorem seed_replenishment_differs:
  "hd (map (stored_row E) inventoryItems) =
     stored_row E (catalog ''Ventilator'' ''Equipment'' 2487 656 3556 5832.29 55 12 ''MedSupply Inc'')
   \<and> sd_replenishment_needs (seed_dashboard (hd (map (stored_row E) inventoryItems))) = Num 1069
   \<and> map_of (sh_feature_values (seed_history mid r (hd (map (stored_row E) inventoryItems))))
        ''replenishment_needs'' = Some (Num 1069)
   \<and> replenishment_needs (predictDemand (hd (map (stored_row E) inventoryItems))) = Num 0"
  by (simp add: inventoryItems_def catalog_def stored_row_def seed_dashboard_def seed_history_def
      predictDemand_def Let_def js_sub_def)

section \<open>Alerts of run-predictions\<close>

lemma stockPercentage_value:
  "0 < min_required item \<Longrightarrow>
   stockPercentage item = Num (current_stock item / min_required item * 100)"
  by (simp add: stockPercentage_def)

lemma process_item_alerts:
  "\<not> prediction_insert_fails E item \<Longrightarrow>
   alerts (process_item E user m item st) = alerts st @ generate_alerts E item (predictDemand item)"
  by (simp add: process_item_def Let_def)

text \<open>An item whose prediction row the store refuses leaves the arrays as they were.\<close>

lemma process_item_skipped:
  "prediction_insert_fails E item \<Longrightarrow> process_item E user m item st = st"
  by (simp add: process_item_def Let_def)

lemma predict_loop_snoc:
  "predict_loop E user m (items @ [item]) st =
     process_item E user m item (predict_loop E user m items st)"
  by (induction items arbitrary: st) simp_all

text \<open>The alerts of a whole run: those of the items whose prediction row was stored.\<close>

lemma predict_loop_alerts:
  "alerts (predict_loop E user m items st) =
     alerts st @ concat (map (\<lambda>item. if prediction_insert_fails E item then []
                                    else generate_alerts E item (predictDemand item)) items)"
proof (induction items arbitrary: st)
  case Nil
  show ?case by simp
next
  case (Cons item items)
  show ?case
  proof (cases "prediction_insert_fails E item")
    case True
    then show ?thesis by (simp add: Cons.IH process_item_skipped)
  next
    case False
    then show ?thesis by (simp add: Cons.IH process_item_alerts)
  qed
qed

lemma generate_alerts_critical:
  "js_lt (stockPercentage item) (Num 10) \<Longrightarrow>
   \<exists>a. generate_alerts E item p = [a] \<and> severity a = ''critical''
        \<and> alert_type a = ''critical_stock''"
  by (simp add: generate_alerts_def)

lemma generate_alerts_warning:
  "\<not> js_lt (stockPercentage item) (Num 10) \<Longrightarrow> js_lt (stockPercentage item) (Num 20) \<Longrightarrow>
   \<exists>a. generate_alerts E item p = [a] \<and> severity a = ''warning'' \<and> alert_type a = ''low_stock''"
  by (simp add: generate_alerts_def)

lemma generate_alerts_none:
  "\<not> js_lt (stockPercentage item) (Num 20) \<Longrightarrow> \<not> js_lt (stockPercentage item) (Num 10) \<Longrightarrow>
   generate_alerts E item p = []"
  by (simp add: generate_alerts_def)

text \<open>
  C3. For every item the loop of run-predictions processes, with a positive minimum and
  its prediction row stored, and with stock percentage = current stock / minimum * 100:
  below 10 the loop adds one alert of severity critical and type critical_stock; from 10
  up to but not including 20 it adds one of severity warning and type low_stock; from
  20 on it adds none.
\<close>

theorem alert_thresholds:
  assumes "0 < min_required item" and "\<not> prediction_insert_fails E item"
  shows "stockPercentage item = Num (current_stock item / min_required item * 100)
     \<and> (current_stock item / min_required item * 100 < 10 \<longrightarrow>
          (\<exists>a. alerts (process_item E user m item st) = alerts st @ [a]
               \<and> severity a = ''critical'' \<and> alert_type a = ''critical_stock''))
     \<and> (10 \<le> current_stock item / min_required item * 100
          \<and> current_stock item / min_required item * 100 < 20 \<longrightarrow>
          (\<exists>a. alerts (process_item E user m item st) = alerts st @ [a]
               \<and> severity a = ''warning'' \<and> alert_type a = ''low_stock''))
     \<and> (20 \<le> current_stock item / min_required item * 100 \<longrightarrow>
          alerts (process_item E user m item st) = alerts st)"
proof -
  let ?sp = "current_stock item / min_required item * 100"
  have sp: "stockPercentage item = Num ?sp"
    using assms(1) by (rule stockPercentage_value)
  have crit: "?sp < 10 \<Longrightarrow> \<exists>a. alerts (process_item E user m item st) = alerts st @ [a]
               \<and> severity a = ''critical'' \<and> alert_type a = ''critical_stock''"
    using generate_alerts_critical [of item E "predictDemand item"] assms(2)
    by (auto simp: process_item_alerts sp)
  have warn: "10 \<le> ?sp \<Longrightarrow> ?sp < 20 \<Longrightarrow>
      \<exists>a. alerts (process_item E user m item st) = alerts st @ [a]
               \<and> severity a = ''warning'' \<and> alert_type a = ''low_stock''"
    using generate_alerts_warning [of item E "predictDemand item"] assms(2)
    by (auto simp: process_item_alerts sp)
  have none: "20 \<le> ?sp \<Longrightarrow> alerts (process_item E user m item st) = alerts st"
    using generate_alerts_none [of item E "predictDemand item"] assms(2)
    by (auto simp: process_item_alerts sp)
  from sp crit warn none show ?thesis by blast
qed

text \<open>The item with stock 10 and minimum 200 is at 5 percent: a critical alert.\<close>

theorem alert_thresholds_witness:
  "0 < min_required (sample_item 10 200)
   \<and> \<not> prediction_insert_fails sample_env (sample_item 10 200)
   \<and> stockPercentage (sample_item 10 200) = Num 5
   \<and> (\<exists>a. alerts (process_item sample_env ''user-1'' sample_model (sample_item 10 200)
                 empty_state) = [a]
          \<and> severity a = ''critical'' \<and> alert_type a = ''critical_stock'')"
  using alert_thresholds [of "sample_item 10 200" sample_env "''user-1''" sample_model empty_state]
  by (simp add: sample_item_def sample_env_def empty_state_def)

text \<open>
  C4, as the spec has it: an item at exactly 10 percent of its minimum gets a critical
  alert. The item with stock 20 and minimum 200 is at exactly 10 percent and gets one
  alert, of severity warning and type low_stock.
\<close>

theorem ten_percent_not_critical:
  "stockPercentage (sample_item 20 200) = Num 10
   \<and> map severity (alerts (process_item sample_env ''user-1'' sample_model (sample_item 20 200)
        empty_state)) = [''warning'']
   \<and> map alert_type (alerts (process_item sample_env ''user-1'' sample_model (sample_item 20 200)
        empty_state)) = [''low_stock'']
   \<and> ''critical'' \<notin> set (map severity
        (alerts (process_item sample_env ''user-1'' sample_model (sample_item 20 200)
           empty_state)))"
  by (simp add: process_item_def generate_alerts_def stockPercentage_def Let_def
      sample_item_def sample_env_def empty_state_def)

text \<open>
  C4, amended. For an item with a positive minimum whose prediction row is stored: at
  exactly 10 percent the loop adds a warning alert of type low_stock; at exactly 20
  percent it adds no alert; at 19.999 percent it adds a warning alert.
\<close>

theorem boundary_alerts:
  assumes "0 < min_required item" and "\<not> prediction_insert_fails E item"
  shows "(current_stock item / min_required item * 100 = 10 \<longrightarrow>
          (\<exists>a. alerts (process_item E user m item st) = alerts st @ [a]
               \<and> severity a = ''warning'' \<and> alert_type a = ''low_stock''))
     \<and> (current_stock item / min_required item * 100 = 20 \<longrightarrow>
          alerts (process_item E user m item st) = alerts st)
     \<and> (current_stock item / min_required item * 100 = 19.999 \<longrightarrow>
          (\<exists>a. alerts (process_item E user m item st) = alerts st @ [a]
               \<and> severity a = ''warning'' \<and> alert_type a = ''low_stock''))"
proof -
  let ?sp = "current_stock item / min_required item * 100"
  have sp: "stockPercentage item = Num ?sp"
    using assms(1) by (rule stockPercentage_value)
  have warn: "10 \<le> ?sp \<Longrightarrow> ?sp < 20 \<Longrightarrow>
      \<exists>a. alerts (process_item E user m item st) = alerts st @ [a]
               \<and> severity a = ''warning'' \<and> alert_type a = ''low_stock''"
    using generate_alerts_warning [of item E "predictDemand item"] assms(2)
    by (auto simp: process_item_alerts sp)
  have none: "20 \<le> ?sp \<Longrightarrow> alerts (process_item E user m item st) = alerts st"
    using generate_alerts_none [of item E "predictDemand item"] assms(2)
    by (auto simp: process_item_alerts sp)
  from warn none show ?thesis by simp
qed

theorem boundary_alerts_witness:
  "0 < min_required (sample_item 20 200)
   \<and> \<not> prediction_insert_fails sample_env (sample_item 20 200)
   \<and> current_stock (sample_item 20 200) / min_required (sample_item 20 200) * 100 = 10
   \<and> (\<exists>a. alerts (process_item sample_env ''user-1'' sample_model (sample_item 20 200)
                 empty_state) = [a]
          \<and> severity a = ''warning'' \<and> alert_type a = ''low_stock'')"
  using boundary_alerts [of "sample_item 20 200" sample_env "''user-1''" sample_model empty_state]
  by (simp add: sample_item_def sample_env_def empty_state_def)

section \<open>The handlers and the credential\<close>

text \<open>When a row is active, the query for the active model returns the newest active row.\<close>

lemma select_active_models_newest:
  assumes "\<exists>m\<in>set ms. is_active m"
  shows "\<exists>m. select_active_models ms = [m] \<and> is_active m \<and> m \<in> set ms
           \<and> (\<forall>m'\<in>set ms. is_active m' \<longrightarrow> created_at m' \<le> created_at m)"
proof -
  let ?f = "\<lambda>m. - int (created_at m)"
  let ?xs = "sort_key ?f (filter is_active ms)"
  from assms have "set ?xs \<noteq> {}" by auto
  then obtain m rest where xs: "?xs = m # rest" by (cases ?xs) auto
  have "m \<in> set ?xs" by (simp add: xs)
  then have m: "is_active m" "m \<in> set ms" by auto
  have "sorted (map ?f ?xs)" by (rule sorted_sort_key)
  then have "\<forall>y\<in>set rest. ?f m \<le> ?f y" by (simp add: xs)
  moreover have "set ms \<inter> {x. is_active x} = insert m (set rest)"
  proof -
    have "set ?xs = set ms \<inter> {x. is_active x}" by auto
    then show ?thesis by (simp add: xs)
  qed
  ultimately have "\<forall>m'\<in>set ms. is_active m' \<longrightarrow> created_at m' \<le> created_at m"
    by auto
  moreover have "select_active_models ms = [m]"
    by (simp add: select_active_models_def xs)
  ultimately show ?thesis using m by blast
qed

text \<open>
  C9. For every request to run-predictions that is not a preflight, carries a credential
  the identity provider resolves, has a body with \<open>single_prediction\<close>, and meets a
  registry with an active model that can be read: the handler answers 200 with what
  \<open>predictDemand\<close> returns for the given fields (estimated demand, shortfall,
  replenishment need, contributions) and the version of the newest active model, and it
  writes nothing: no prediction, history or alert row.
\<close>

theorem demo_mode_writes_nothing:
  assumes "req_method req \<noteq> ''OPTIONS''"
    and "authenticate E req = Inr user"
    and "json_body req = Inr input"
    and "single_prediction input = Some sp"
    and "\<not> models_query_fails E"
    and "\<exists>m\<in>set (model_registry E). is_active m"
  shows "\<exists>m. m \<in> set (model_registry E) \<and> is_active m
            \<and> (\<forall>m'\<in>set (model_registry E). is_active m' \<longrightarrow> created_at m' \<le> created_at m)
            \<and> run_predictions E req =
                (\<lparr>status = 200,
                  body = DemoBody (predictDemand (demo_item sp)) (model_version m)\<rparr>, [])"
proof -
  from select_active_models_newest [OF assms(6)] obtain m where
    m: "select_active_models (model_registry E) = [m]" "is_active m" "m \<in> set (model_registry E)"
       "\<forall>m'\<in>set (model_registry E). is_active m' \<longrightarrow> created_at m' \<le> created_at m"
    by blast
  have "run_predictions E req =
      (\<lparr>status = 200, body = DemoBody (predictDemand (demo_item sp)) (model_version m)\<rparr>, [])"
    using assms(1-5) m(1) by (simp add: run_predictions_def)
  with m show ?thesis by blast
qed

theorem demo_mode_writes_nothing_witness:
  "req_method demo_request \<noteq> ''OPTIONS''
   \<and> authenticate sample_env demo_request = Inr ''user-1''
   \<and> json_body demo_request = Inr \<lparr>pi_item_id = None, pi_run_all = None,
                       single_prediction = Some sample_fields\<rparr>
   \<and> \<not> models_query_fails sample_env
   \<and> is_active sample_model
   \<and> run_predictions sample_env demo_request =
       (\<lparr>status = 200,
         body = DemoBody (predictDemand (demo_item sample_fields)) ''v1.0.0''\<rparr>, [])
   \<and> estimated_demand (predictDemand (demo_item sample_fields)) = Num 660"
proof -
  have a: "authenticate sample_env demo_request = Inr ''user-1''"
    by (simp add: authenticate_def sample_env_def demo_request_def)
  have b: "\<exists>m\<in>set (model_registry sample_env). is_active m"
    by (simp add: sample_env_def sample_model_def)
  from demo_mode_writes_nothing [of demo_request sample_env "''user-1''" _ sample_fields, OF _ a _ _ _ b]
  have "\<exists>m. m \<in> set (model_registry sample_env) \<and>
         run_predictions sample_env demo_request =
         (\<lparr>status = 200, body = DemoBody (predictDemand (demo_item sample_fields)) (model_version m)\<rparr>, [])"
    by (auto simp: demo_request_def sample_env_def)
  then have "run_predictions sample_env demo_request =
         (\<lparr>status = 200, body = DemoBody (predictDemand (demo_item sample_fields)) ''v1.0.0''\<rparr>, [])"
    by (auto simp: sample_env_def sample_model_def)
  then show ?thesis using a
    by (simp add: demo_request_def sample_env_def sample_model_def predictDemand_def demo_item_def
        sample_fields_def Let_def)
qed

text \<open>
  Without a credential that resolves, the two compute handlers answer 500 with the
  error message and write nothing.
\<close>

lemma authenticate_fails:
  "authorization req = None \<or> authorization req = Some [] \<Longrightarrow>
     authenticate E req = Inl (JsError ''Missing authorization header'')"
  "authorization req = Some h \<Longrightarrow> h \<noteq> [] \<Longrightarrow> getUser E (replace_first ''Bearer '' [] h) = None \<Longrightarrow>
     authenticate E req = Inl (JsError ''Unauthorized'')"
  by (auto simp: authenticate_def)

lemma run_predictions_unauthorized:
  "req_method req \<noteq> ''OPTIONS'' \<Longrightarrow> authenticate E req = Inl (JsError msg) \<Longrightarrow>
   run_predictions E req = (\<lparr>status = 500, body = ErrorBody msg\<rparr>, [])"
  by (simp add: run_predictions_def error_response_def)

lemma calculate_cost_optimization_unauthorized:
  "req_method req \<noteq> ''OPTIONS'' \<Longrightarrow> authenticate E req = Inl (JsError msg) \<Longrightarrow>
   calculate_cost_optimization E req = (\<lparr>status = 500, body = ErrorBody msg\<rparr>, [])"
  by (simp add: calculate_cost_optimization_def error_response_def)

lemma low_stock_catalog:
  "filter (\<lambda>item. current_stock item < min_required item) (map (stored_row E) inventoryItems)
   = [stored_row E (catalog ''Oxygen Tanks'' ''Equipment'' 180 200 500 8500.00 8 20 ''PharmaTech'')]"
  by (simp add: inventoryItems_def catalog_def stored_row_def)

text \<open>
  C8. The claim: each of the three handlers answers a request without a resolvable
  credential with an error of status 500 and writes nothing. The seeding handler never
  looks at the header: a request without \<open>authorization\<close>, when the store accepts
  every call, gets 200 with the counts 8, 8 and 1, after five writes, the first being
  the upsert of the catalog.
\<close>

theorem seed_without_credential:
  "authorization anonymous_request = None
   \<and> fst (seed_sample_data (E\<lparr>upsert_items_error := None, upsert_model_error := None,
        insert_history_error := None, upsert_predictions_error := None,
        insert_alerts_error := None\<rparr>) anonymous_request)
      = \<lparr>status = 200, body = SeedBody 8 8 1\<rparr>
   \<and> length (snd (seed_sample_data (E\<lparr>upsert_items_error := None, upsert_model_error := None,
        insert_history_error := None, upsert_predictions_error := None,
        insert_alerts_error := None\<rparr>) anonymous_request)) = 5
   \<and> hd (snd (seed_sample_data (E\<lparr>upsert_items_error := None, upsert_model_error := None,
        insert_history_error := None, upsert_predictions_error := None,
        insert_alerts_error := None\<rparr>) anonymous_request)) = UpsertInventoryItems inventoryItems"
  by (simp add: seed_sample_data_def anonymous_request_def low_stock_catalog Let_def
      seed_success_def) (simp add: inventoryItems_def)


end
